theory Spec2Isabelle
  imports Main "HOL-Library.AList" "HOL-Library.Sublist"
begin

section \<open>Data model of the compliance widgets\<close>

text \<open>
  The widgets (\<^verbatim>\<open>src/lambda/configRulesWidget.js\<close> and
  \<^verbatim>\<open>src/lambda/configComplianceWidget.js\<close>) work on plain JavaScript objects. An
  object with fixed fields is a record here, a field that may be missing is an
  \<open>option\<close>, and an object used as a lookup table (\<^verbatim>\<open>complianceMap\<close>,
  \<^verbatim>\<open>detailedComplianceData\<close>) is an association list kept in insertion order: the
  assignment \<^verbatim>\<open>m[k] = v\<close> is \<open>AList.update k v m\<close> (replace in place, or append), the
  own properties are what \<open>map_of m\<close> finds. The lookup maps are created as \<^verbatim>\<open>{}\<close>, so a
  read \<^verbatim>\<open>complianceMap[k]\<close> of a name without own property goes on to the prototype:
  it is \<open>getProperty\<close> below, which gives \<^verbatim>\<open>undefined\<close> only when the prototype
  chain has no property of that name either.

  Resource counts are counts: natural numbers, as in the data model of the
  specification. The expression \<^verbatim>\<open>x || 0\<close> on a count is \<open>or0\<close>, and \<^verbatim>\<open>x || []\<close> on a
  list is \<open>orEmpty\<close>.
\<close>

record RuleScope =
  ComplianceResourceTypes :: "string list option"

record ConfigRule =
  ConfigRuleName :: string
  Description :: "string option"
  Scope :: "RuleScope option"

record SummaryCounts =
  SummaryCompliantResourceCount :: "nat option"
  SummaryNonCompliantResourceCount :: "nat option"
  SummaryTotalResourceCount :: "nat option"

record SummaryItem =
  SummaryRuleName :: string
  ComplianceSummary :: SummaryCounts

record EvaluationResult =
  ComplianceType :: string
  ResourceId :: "string option"
  ResourceType :: "string option"

record ComplianceCount =
  CompliantResourceCount :: nat
  NonCompliantResourceCount :: nat
  TotalResourceCount :: nat

record RulesResponse =
  ConfigRules :: "ConfigRule list option"

record ComplianceResponse =
  ComplianceSummaryByConfigRule :: "SummaryItem list option"

record Params =
  ruleNames :: "string list option"
  resourceTypes :: "string list option"
  complianceStatus :: "string option"
  ruleName :: "string option"

text \<open>
  What a read \<^verbatim>\<open>complianceMap[k]\<close> can give: \<^verbatim>\<open>undefined\<close>, a count object stored
  under \<open>k\<close>, or a value found on the prototype chain. Every plain object
  inherits the properties of \<^verbatim>\<open>Object.prototype\<close>, which are functions, and the
  object \<^verbatim>\<open>Object.prototype\<close> itself under the name \<^verbatim>\<open>__proto__\<close>. An assignment
  \<^verbatim>\<open>complianceMap['__proto__'] = c\<close> makes the count object \<open>c\<close> the prototype, so that
  \<^verbatim>\<open>__proto__\<close> then reads as \<open>c\<close> and the names of the three fields of \<open>c\<close> read as
  its numbers.
\<close>

datatype PropertyValue =
    Undefined
  | Counts ComplianceCount
  | InheritedNumber nat
  | InheritedObject

text \<open>A processed rule is the rule object spread into a new object that also
  carries the \<^verbatim>\<open>compliance\<close> field: the value read from the lookup map, or the
  zero count.\<close>

record ProcessedRule = ConfigRule +
  compliance :: PropertyValue

record Summary =
  total :: nat
  compliant :: nat
  nonCompliant :: nat
  insufficientData :: nat

record ProcessedData =
  rules :: "ProcessedRule list"
  summary :: Summary
  accountId :: "string option"

type_synonym ComplianceMap = "(string \<times> ComplianceCount) list"

type_synonym DetailedComplianceData = "(string \<times> EvaluationResult list) list"

datatype Classification = COMPLIANT | NON_COMPLIANT | INSUFFICIENT_DATA

text \<open>The value of the \<^verbatim>\<open>complianceStatus\<close> parameter that names a classification,
  and the text the widgets display for it.\<close>

fun statusValue :: "Classification \<Rightarrow> string" where
  "statusValue COMPLIANT = ''COMPLIANT''"
| "statusValue NON_COMPLIANT = ''NON_COMPLIANT''"
| "statusValue INSUFFICIENT_DATA = ''INSUFFICIENT_DATA''"

fun statusLabel :: "Classification \<Rightarrow> string" where
  "statusLabel COMPLIANT = ''Compliant''"
| "statusLabel NON_COMPLIANT = ''Non-Compliant''"
| "statusLabel INSUFFICIENT_DATA = ''Insufficient Data''"

definition or0 :: "nat option \<Rightarrow> nat" where
  "or0 x = (case x of None \<Rightarrow> 0 | Some n \<Rightarrow> n)"

definition orEmpty :: "'a list option \<Rightarrow> 'a list" where
  "orEmpty x = (case x of None \<Rightarrow> [] | Some l \<Rightarrow> l)"

definition zeroCount :: ComplianceCount where
  "zeroCount = \<lparr>CompliantResourceCount = 0, NonCompliantResourceCount = 0,
                TotalResourceCount = 0\<rparr>"

text \<open>Truthiness of a value that was read, the read of a count field of such a
  value (\<open>None\<close> for \<^verbatim>\<open>undefined\<close>: only a count object has these fields), and the
  comparison \<^verbatim>\<open>x > 0\<close>, which is false of \<^verbatim>\<open>undefined\<close>. The comparison \<^verbatim>\<open>x === 0\<close> is
  \<open>x = Some 0\<close>. The code reads a count field only of a value that it has tested
  for truthiness, so the field read of \<^verbatim>\<open>undefined\<close> itself, which throws, does not
  occur.\<close>

fun truthy :: "PropertyValue \<Rightarrow> bool" where
  "truthy Undefined = False"
| "truthy (Counts c) = True"
| "truthy (InheritedNumber n) = (n \<noteq> 0)"
| "truthy InheritedObject = True"

fun readNonCompliantResourceCount :: "PropertyValue \<Rightarrow> nat option" where
  "readNonCompliantResourceCount (Counts c) = Some (NonCompliantResourceCount c)"
| "readNonCompliantResourceCount v = None"

fun readTotalResourceCount :: "PropertyValue \<Rightarrow> nat option" where
  "readTotalResourceCount (Counts c) = Some (TotalResourceCount c)"
| "readTotalResourceCount v = None"

fun positive :: "nat option \<Rightarrow> bool" where
  "positive None = False"
| "positive (Some n) = (n > 0)"

text \<open>The names of the properties of \<^verbatim>\<open>Object.prototype\<close> in Node.js.\<close>

definition objectPrototypeNames :: "string list" where
  "objectPrototypeNames =
     [''constructor'', ''__defineGetter__'', ''__defineSetter__'', ''hasOwnProperty'',
      ''__lookupGetter__'', ''__lookupSetter__'', ''isPrototypeOf'',
      ''propertyIsEnumerable'', ''toString'', ''valueOf'', ''__proto__'',
      ''toLocaleString'']"

text \<open>The read \<^verbatim>\<open>complianceMap[k]\<close>.\<close>

definition getProperty :: "(string \<times> ComplianceCount) list \<Rightarrow> string \<Rightarrow> PropertyValue" where
  "getProperty m k =
     (case map_of m k of
        Some c \<Rightarrow> Counts c
      | None \<Rightarrow>
          (case map_of m ''__proto__'' of
             Some c \<Rightarrow>
               if k = ''CompliantResourceCount''
               then InheritedNumber (CompliantResourceCount c)
               else if k = ''NonCompliantResourceCount''
               then InheritedNumber (NonCompliantResourceCount c)
               else if k = ''TotalResourceCount''
               then InheritedNumber (TotalResourceCount c)
               else if k \<in> set objectPrototypeNames then InheritedObject
               else Undefined
           | None \<Rightarrow>
               if k \<in> set objectPrototypeNames then InheritedObject else Undefined))"

definition withCompliance :: "ConfigRule \<Rightarrow> PropertyValue \<Rightarrow> ProcessedRule" where
  "withCompliance r c =
     \<lparr>ConfigRuleName = ConfigRuleName r, Description = Description r, Scope = Scope r,
      compliance = c\<rparr>"

definition ruleOf :: "ProcessedRule \<Rightarrow> ConfigRule" where
  "ruleOf p = \<lparr>ConfigRuleName = ConfigRuleName p, Description = Description p,
               Scope = Scope p\<rparr>"

section \<open>The rules widget: \<^verbatim>\<open>processConfigData\<close>\<close>

text \<open>Lines 70-78: the lookup map built from the compliance summary.\<close>

definition summaryEntry :: "SummaryItem \<Rightarrow> ComplianceCount" where
  "summaryEntry item =
     \<lparr>CompliantResourceCount = or0 (SummaryCompliantResourceCount (ComplianceSummary item)),
      NonCompliantResourceCount = or0 (SummaryNonCompliantResourceCount (ComplianceSummary item)),
      TotalResourceCount = or0 (SummaryTotalResourceCount (ComplianceSummary item))\<rparr>"

definition buildComplianceMap :: "SummaryItem list \<Rightarrow> ComplianceMap" where
  "buildComplianceMap cs =
     fold (\<lambda>item m. AList.update (SummaryRuleName item) (summaryEntry item) m) cs []"

text \<open>Lines 80-95: the counts derived from the evaluation results of a rule
  overwrite the entry of the rule when there is at least one result.\<close>

definition detailCount :: "EvaluationResult list \<Rightarrow> ComplianceCount" where
  "detailCount evaluationResults =
     (let nonCompliantCount =
            length (filter (\<lambda>r. ComplianceType r = ''NON_COMPLIANT'') evaluationResults);
          compliantCount =
            length (filter (\<lambda>r. ComplianceType r = ''COMPLIANT'') evaluationResults);
          totalCount = length evaluationResults
      in \<lparr>CompliantResourceCount = compliantCount,
          NonCompliantResourceCount = nonCompliantCount,
          TotalResourceCount = totalCount\<rparr>)"

definition mergeStep ::
  "DetailedComplianceData \<Rightarrow> string \<Rightarrow> ComplianceMap \<Rightarrow> ComplianceMap" where
  "mergeStep detailed k m =
     (case map_of detailed k of
        None \<Rightarrow> m
      | Some evaluationResults \<Rightarrow>
          if length evaluationResults > 0
          then AList.update k (detailCount evaluationResults) m
          else m)"

definition mergeDetailed :: "DetailedComplianceData \<Rightarrow> ComplianceMap \<Rightarrow> ComplianceMap" where
  "mergeDetailed detailed m = fold (mergeStep detailed) (map fst detailed) m"

text \<open>Lines 97-126: the three filters, applied in this order.\<close>

definition statusFilter :: "ComplianceMap \<Rightarrow> string \<Rightarrow> ConfigRule \<Rightarrow> bool" where
  "statusFilter m st r =
     (let compliance = getProperty m (ConfigRuleName r)
      in if \<not> truthy compliance then False
         else if st = ''COMPLIANT''
         then readNonCompliantResourceCount compliance = Some 0 \<and>
              positive (readTotalResourceCount compliance)
         else if st = ''NON_COMPLIANT''
         then positive (readNonCompliantResourceCount compliance)
         else if st = ''INSUFFICIENT_DATA''
         then readTotalResourceCount compliance = Some 0
         else True)"

definition resourceTypeFilter :: "string list \<Rightarrow> ConfigRule \<Rightarrow> bool" where
  "resourceTypeFilter ts r =
     (case Scope r of
        None \<Rightarrow> False
      | Some sc \<Rightarrow>
          (case ComplianceResourceTypes sc of
             None \<Rightarrow> False
           | Some tys \<Rightarrow> list_ex (\<lambda>ty. ty \<in> set ts) tys))"

definition filterRules :: "ComplianceMap \<Rightarrow> Params \<Rightarrow> ConfigRule list \<Rightarrow> ConfigRule list" where
  "filterRules m params rs =
     (let filteredRules = rs;
          filteredRules =
            (case ruleNames params of
               Some ns \<Rightarrow>
                 if length ns > 0
                 then filter (\<lambda>r. ConfigRuleName r \<in> set ns) rs
                 else filteredRules
             | None \<Rightarrow> filteredRules);
          filteredRules =
            (case complianceStatus params of
               Some st \<Rightarrow>
                 if st \<noteq> [] then filter (statusFilter m st) filteredRules
                 else filteredRules
             | None \<Rightarrow> filteredRules);
          filteredRules =
            (case resourceTypes params of
               Some ts \<Rightarrow>
                 if length ts > 0 then filter (resourceTypeFilter ts) filteredRules
                 else filteredRules
             | None \<Rightarrow> filteredRules)
      in filteredRules)"

text \<open>Lines 128-136: \<^verbatim>\<open>complianceMap[name] || {0, 0, 0}\<close>.\<close>

definition lookupOrZero :: "ComplianceMap \<Rightarrow> string \<Rightarrow> PropertyValue" where
  "lookupOrZero m k =
     (if truthy (getProperty m k) then getProperty m k else Counts zeroCount)"

definition reconcile ::
  "ComplianceResponse \<Rightarrow> DetailedComplianceData \<Rightarrow> ComplianceMap" where
  "reconcile complianceResponse detailed =
     mergeDetailed detailed
       (buildComplianceMap (orEmpty (ComplianceSummaryByConfigRule complianceResponse)))"

definition processConfigData ::
  "RulesResponse \<Rightarrow> ComplianceResponse \<Rightarrow> Params \<Rightarrow> DetailedComplianceData \<Rightarrow>
   string option \<Rightarrow> ProcessedData" where
  "processConfigData rulesResponse complianceResponse params detailed acct =
     (let rs = orEmpty (ConfigRules rulesResponse);
          complianceMap = reconcile complianceResponse detailed;
          filteredRules = filterRules complianceMap params rs;
          processedRules =
            map (\<lambda>r. withCompliance r (lookupOrZero complianceMap (ConfigRuleName r)))
              filteredRules
      in \<lparr>rules = processedRules,
          summary =
            \<lparr>total = length processedRules,
             compliant =
               length (filter (\<lambda>p. readNonCompliantResourceCount (compliance p) = Some 0 \<and>
                                    positive (readTotalResourceCount (compliance p)))
                         processedRules),
             nonCompliant =
               length (filter (\<lambda>p. positive (readNonCompliantResourceCount (compliance p)))
                         processedRules),
             insufficientData =
               length (filter (\<lambda>p. readTotalResourceCount (compliance p) = Some 0)
                         processedRules)\<rparr>,
          accountId = acct\<rparr>)"

text \<open>Lines 356-373 of \<^verbatim>\<open>generateRuleItemHTML\<close>: the status class and the status text
  of a processed rule.\<close>

definition generateRuleItemHTML :: "ProcessedRule \<Rightarrow> string \<times> string" where
  "generateRuleItemHTML p =
     (let c = compliance p;
          isCompliant = (readNonCompliantResourceCount c = Some 0 \<and>
                         positive (readTotalResourceCount c));
          isNonCompliant = positive (readNonCompliantResourceCount c);
          isInsufficient = (readTotalResourceCount c = Some 0 \<and>
                            readNonCompliantResourceCount c = Some 0)
      in if isCompliant then (''status-compliant'', ''Compliant'')
         else if isNonCompliant then (''status-noncompliant'', ''Non-Compliant'')
         else (''status-insufficient'', ''Insufficient Data''))"

section \<open>The compliance widget: \<^verbatim>\<open>generateComplianceSummaryHTML\<close>\<close>

text \<open>Lines 744-775 of \<^verbatim>\<open>generateRuleSummaryItemHTML\<close>: the compliance argument is
  the value read from the lookup map, and is replaced by the zero count when it
  is not truthy.\<close>

definition generateRuleSummaryItemHTML ::
  "ConfigRule \<Rightarrow> PropertyValue \<Rightarrow> string \<times> string" where
  "generateRuleSummaryItemHTML r entry =
     (let c = (if \<not> truthy entry then Counts zeroCount else entry);
          isCompliant = (readNonCompliantResourceCount c = Some 0 \<and>
                         positive (readTotalResourceCount c));
          isNonCompliant = positive (readNonCompliantResourceCount c);
          isInsufficient = (readTotalResourceCount c = Some 0 \<and>
                            readNonCompliantResourceCount c = Some 0)
      in if isCompliant then (''compliance-compliant'', ''Compliant'')
         else if isNonCompliant then (''compliance-noncompliant'', ''Non-Compliant'')
         else (''compliance-insufficient'', ''Insufficient Data''))"

text \<open>Lines 324-397 of \<^verbatim>\<open>generateComplianceSummaryHTML\<close>: the same lookup map and
  the same merge of the detailed data, then a default zero entry for
  \<^verbatim>\<open>iam-password-policy\<close> when that rule is listed and has no entry, then the
  statistics, the third one by subtraction.\<close>

definition summaryComplianceMap ::
  "ConfigRule list \<Rightarrow> SummaryItem list \<Rightarrow> DetailedComplianceData \<Rightarrow> ComplianceMap" where
  "summaryComplianceMap rs cs detailed =
     (let m = mergeDetailed detailed (buildComplianceMap cs);
          iamPasswordPolicyRule = find (\<lambda>r. ConfigRuleName r = ''iam-password-policy'') rs
      in if iamPasswordPolicyRule \<noteq> None \<and> \<not> truthy (getProperty m ''iam-password-policy'')
         then AList.update ''iam-password-policy'' zeroCount m
         else m)"

record SummaryView =
  totalRules :: nat
  compliantRules :: nat
  nonCompliantRules :: nat
  insufficientDataRules :: int
  ruleItems :: "(ConfigRule \<times> string \<times> string) list"

definition generateComplianceSummaryHTML ::
  "ConfigRule list \<Rightarrow> SummaryItem list \<Rightarrow> DetailedComplianceData \<Rightarrow> SummaryView" where
  "generateComplianceSummaryHTML rs cs detailed =
     (let complianceMap = summaryComplianceMap rs cs detailed;
          totalRules = length rs;
          compliantRules =
            length (filter (\<lambda>r. let comp = getProperty complianceMap (ConfigRuleName r)
                                 in truthy comp \<and>
                                    readNonCompliantResourceCount comp = Some 0 \<and>
                                    positive (readTotalResourceCount comp)) rs);
          nonCompliantRules =
            length (filter (\<lambda>r. let comp = getProperty complianceMap (ConfigRuleName r)
                                 in truthy comp \<and>
                                    positive (readNonCompliantResourceCount comp)) rs);
          insufficientDataRules = int totalRules - int compliantRules - int nonCompliantRules
      in \<lparr>totalRules = totalRules, compliantRules = compliantRules,
          nonCompliantRules = nonCompliantRules,
          insufficientDataRules = insufficientDataRules,
          ruleItems =
            map (\<lambda>r. (r, generateRuleSummaryItemHTML r
                             (getProperty complianceMap (ConfigRuleName r)))) rs\<rparr>)"

section \<open>Prefetch of the evaluation details of the account-level rules\<close>

text \<open>
  The upstream calls are values here: a call that rejects is \<open>Inl\<close> of the error
  message, a call that resolves is \<open>Inr\<close> of its response. The evaluation-detail
  reader is a function of the rule name (each name is read at most once in an
  invocation); \<open>None\<close> inside \<open>Inr\<close> is a response without \<^verbatim>\<open>EvaluationResults\<close>.
  Logging is left out. A handler returns \<open>Inl\<close> of the message when it renders
  the error page, and \<open>Inr\<close> of the data it renders otherwise.
\<close>

type_synonym DetailReader = "string \<Rightarrow> string + EvaluationResult list option"

definition accountLevelRules :: "string list" where
  "accountLevelRules =
     [''iam-password-policy'', ''root-account-mfa-enabled'', ''iam-user-mfa-enabled'']"

definition ruleExists :: "RulesResponse \<Rightarrow> string \<Rightarrow> bool" where
  "ruleExists rulesResponse n =
     (case ConfigRules rulesResponse of
        None \<Rightarrow> False
      | Some rs \<Rightarrow> list_ex (\<lambda>r. ConfigRuleName r = n) rs)"

text \<open>Lines 33-49 of the handler of the rules widget: one iteration of the loop,
  with its \<^verbatim>\<open>try\<close>/\<^verbatim>\<open>catch\<close>.\<close>

definition prefetchStep ::
  "RulesResponse \<Rightarrow> DetailReader \<Rightarrow> string \<Rightarrow> DetailedComplianceData \<Rightarrow>
   DetailedComplianceData" where
  "prefetchStep rulesResponse reader n d =
     (if ruleExists rulesResponse n
      then (case reader n of
              Inl err \<Rightarrow> d
            | Inr res \<Rightarrow> AList.update n (orEmpty res) d)
      else d)"

definition prefetchDetails :: "RulesResponse \<Rightarrow> DetailReader \<Rightarrow> DetailedComplianceData" where
  "prefetchDetails rulesResponse reader =
     fold (prefetchStep rulesResponse reader) accountLevelRules []"

definition handler ::
  "(string + string option) \<Rightarrow> (string + RulesResponse) \<Rightarrow> (string + ComplianceResponse) \<Rightarrow>
   DetailReader \<Rightarrow> Params \<Rightarrow> string + ProcessedData" where
  "handler callerIdentity describeConfigRules getComplianceSummary reader params =
     (case callerIdentity of
        Inl err \<Rightarrow> Inl err
      | Inr acct \<Rightarrow>
          (case describeConfigRules of
             Inl err \<Rightarrow> Inl err
           | Inr rulesResponse \<Rightarrow>
               (case getComplianceSummary of
                  Inl err \<Rightarrow> Inl err
                | Inr complianceResponse \<Rightarrow>
                    Inr (processConfigData rulesResponse complianceResponse params
                           (prefetchDetails rulesResponse reader) acct))))"

text \<open>Lines 71-108 of \<^verbatim>\<open>getDetailedComplianceData\<close> in the compliance widget: a rule
  that is not listed is read all the same, and its results are kept when there
  is at least one.\<close>

definition prefetchStepSummary ::
  "RulesResponse \<Rightarrow> DetailReader \<Rightarrow> string \<Rightarrow> DetailedComplianceData \<Rightarrow>
   DetailedComplianceData" where
  "prefetchStepSummary rulesResponse reader n d =
     (if ruleExists rulesResponse n
      then (case reader n of
              Inl err \<Rightarrow> d
            | Inr res \<Rightarrow> AList.update n (orEmpty res) d)
      else (case reader n of
              Inl directError \<Rightarrow> d
            | Inr res \<Rightarrow>
                (case res of
                   None \<Rightarrow> d
                 | Some evs \<Rightarrow> if length evs > 0 then AList.update n (orEmpty res) d else d)))"

definition prefetchDetailsSummary ::
  "RulesResponse \<Rightarrow> DetailReader \<Rightarrow> DetailedComplianceData" where
  "prefetchDetailsSummary rulesResponse reader =
     fold (prefetchStepSummary rulesResponse reader) accountLevelRules []"

datatype ComplianceData =
    RuleDetails string "EvaluationResult list"
  | ComplianceSummaryData "ConfigRule list" "SummaryItem list" DetailedComplianceData
      "string option"

definition getComplianceSummaryData ::
  "(string + string option) \<Rightarrow> (string + RulesResponse) \<Rightarrow> (string + ComplianceResponse) \<Rightarrow>
   DetailReader \<Rightarrow> string + ComplianceData" where
  "getComplianceSummaryData callerIdentity describeConfigRules getComplianceSummary reader =
     (case callerIdentity of
        Inl err \<Rightarrow> Inl err
      | Inr acct \<Rightarrow>
          (case describeConfigRules of
             Inl err \<Rightarrow> Inl err
           | Inr rulesResponse \<Rightarrow>
               (case getComplianceSummary of
                  Inl err \<Rightarrow> Inl err
                | Inr complianceResponse \<Rightarrow>
                    Inr (ComplianceSummaryData
                           (orEmpty (ConfigRules rulesResponse))
                           (orEmpty (ComplianceSummaryByConfigRule complianceResponse))
                           (prefetchDetailsSummary rulesResponse reader) acct))))"

definition getRuleDetails :: "DetailReader \<Rightarrow> string \<Rightarrow> string + ComplianceData" where
  "getRuleDetails reader n =
     (case reader n of
        Inl err \<Rightarrow> Inl err
      | Inr res \<Rightarrow> Inr (RuleDetails n (orEmpty res)))"

definition getDetailedComplianceData ::
  "(string + string option) \<Rightarrow> (string + RulesResponse) \<Rightarrow> (string + ComplianceResponse) \<Rightarrow>
   DetailReader \<Rightarrow> Params \<Rightarrow> string + ComplianceData" where
  "getDetailedComplianceData callerIdentity describeConfigRules getComplianceSummary
     reader params =
     (case ruleName params of
        Some n \<Rightarrow>
          if n \<noteq> [] then getRuleDetails reader n
          else getComplianceSummaryData callerIdentity describeConfigRules
                 getComplianceSummary reader
      | None \<Rightarrow>
          getComplianceSummaryData callerIdentity describeConfigRules
            getComplianceSummary reader)"

section \<open>Notions used to state the properties\<close>

text \<open>The resource types in the scope of a rule; none when the scope or its list
  of types is absent.\<close>

definition scopeTypes :: "ConfigRule \<Rightarrow> string list" where
  "scopeTypes r =
     (case Scope r of None \<Rightarrow> [] | Some sc \<Rightarrow> orEmpty (ComplianceResourceTypes sc))"

text \<open>The status text that the rules widget shows for a rule under a lookup map:
  the count attached to the rule at lines 129-136, read by \<^verbatim>\<open>generateRuleItemHTML\<close>.\<close>

definition displayedStatus :: "ComplianceMap \<Rightarrow> ConfigRule \<Rightarrow> string" where
  "displayedStatus m r =
     snd (generateRuleItemHTML (withCompliance r (lookupOrZero m (ConfigRuleName r))))"

text \<open>The parameters of an invocation that supplies no filter.\<close>

definition noParams :: Params where
  "noParams = \<lparr>ruleNames = None, resourceTypes = None, complianceStatus = None,
                ruleName = None\<rparr>"

section \<open>Facts about the lookup map and the filters\<close>

lemma fold_update_keys:
  "fst ` set (fold (\<lambda>item m. AList.update (SummaryRuleName item) (summaryEntry item) m) cs m0)
     = SummaryRuleName ` set cs \<union> fst ` set m0"
  by (induction cs arbitrary: m0) (auto simp: dom_update)

lemma buildComplianceMap_keys:
  "fst ` set (buildComplianceMap cs) = SummaryRuleName ` set cs"
  by (simp add: buildComplianceMap_def fold_update_keys)

lemma buildComplianceMap_absent:
  "k \<notin> SummaryRuleName ` set cs \<Longrightarrow> map_of (buildComplianceMap cs) k = None"
  by (simp add: map_of_eq_None_iff buildComplianceMap_keys)

lemma map_of_mergeStep:
  "map_of (mergeStep d k m) k' =
     (if k' = k then
        (case map_of d k of
           None \<Rightarrow> map_of m k
         | Some evs \<Rightarrow> if evs \<noteq> [] then Some (detailCount evs) else map_of m k)
      else map_of m k')"
  by (simp add: mergeStep_def update_conv' split: option.splits)

lemma map_of_fold_mergeStep:
  "map_of (fold (mergeStep d) ks m) k =
     (if k \<in> set ks then
        (case map_of d k of
           None \<Rightarrow> map_of m k
         | Some evs \<Rightarrow> if evs \<noteq> [] then Some (detailCount evs) else map_of m k)
      else map_of m k)"
proof (induction ks arbitrary: m)
  case Nil
  show ?case by simp
next
  case (Cons a ks)
  show ?case
    by (simp add: Cons.IH map_of_mergeStep split: option.splits)
qed

lemma map_of_mergeDetailed:
  "map_of (mergeDetailed d m) k =
     (case map_of d k of
        None \<Rightarrow> map_of m k
      | Some evs \<Rightarrow> if evs \<noteq> [] then Some (detailCount evs) else map_of m k)"
proof (cases "map_of d k")
  case None
  then show ?thesis by (simp add: mergeDetailed_def map_of_fold_mergeStep)
next
  case (Some evs)
  then have "k \<in> fst ` set d" by (metis map_of_eq_None_iff option.distinct(1))
  with Some show ?thesis by (simp add: mergeDetailed_def map_of_fold_mergeStep)
qed

lemma set_filterRules:
  "set (filterRules m params rs) =
     {r \<in> set rs.
        (case ruleNames params of
           Some ns \<Rightarrow> ns \<noteq> [] \<longrightarrow> ConfigRuleName r \<in> set ns | None \<Rightarrow> True) \<and>
        (case complianceStatus params of
           Some st \<Rightarrow> st \<noteq> [] \<longrightarrow> statusFilter m st r | None \<Rightarrow> True) \<and>
        (case resourceTypes params of
           Some ts \<Rightarrow> ts \<noteq> [] \<longrightarrow> resourceTypeFilter ts r | None \<Rightarrow> True)}"
  by (auto simp: filterRules_def Let_def split: option.splits)

lemma subseq_filterRules: "subseq (filterRules m params rs) rs"
  by (auto simp: filterRules_def Let_def split: option.splits intro: subseq_order.trans)

lemma ruleOf_withCompliance: "ruleOf (withCompliance r c) = r"
  by (simp add: ruleOf_def withCompliance_def)

lemma filter_type_bound:
  "length (filter (\<lambda>e. ComplianceType e = ''COMPLIANT'') evs) +
   length (filter (\<lambda>e. ComplianceType e = ''NON_COMPLIANT'') evs) +
   length (filter (\<lambda>e. ComplianceType e \<noteq> ''COMPLIANT'' \<and>
                         ComplianceType e \<noteq> ''NON_COMPLIANT'') evs) = length evs"
  by (induction evs) auto

lemma getProperty_Some: "map_of m k = Some c \<Longrightarrow> getProperty m k = Counts c"
  by (simp add: getProperty_def)

lemma getProperty_None_reads:
  "map_of m k = None \<Longrightarrow>
   readNonCompliantResourceCount (getProperty m k) = None \<and>
   readTotalResourceCount (getProperty m k) = None"
  by (simp add: getProperty_def split: option.splits)

lemma map_of_summaryComplianceMap_Some:
  "map_of (mergeDetailed detailed (buildComplianceMap cs)) k = Some c \<Longrightarrow>
   map_of (summaryComplianceMap rs cs detailed) k = Some c"
  by (auto simp: summaryComplianceMap_def Let_def update_conv' getProperty_Some)

section \<open>Classification\<close>

text \<open>
  C1. The status shown for a rule that carries the counts (compliant,
  non-compliant, total) is Non-Compliant exactly when the non-compliant count is
  positive (whatever the total), Compliant exactly when the non-compliant count is
  zero and the total is positive, and Insufficient Data exactly when both the
  total and the non-compliant count are zero; this holds in the rule item of the
  rules widget, for every processed rule with these counts, and in the rule
  summary item of the compliance widget.
\<close>

theorem classification_tri_state:
  "(snd (generateRuleItemHTML (p\<lparr>compliance := Counts c\<rparr>)) = statusLabel NON_COMPLIANT
      \<longleftrightarrow> NonCompliantResourceCount c > 0) \<and>
   (snd (generateRuleItemHTML (p\<lparr>compliance := Counts c\<rparr>)) = statusLabel COMPLIANT
      \<longleftrightarrow> NonCompliantResourceCount c = 0 \<and> TotalResourceCount c > 0) \<and>
   (snd (generateRuleItemHTML (p\<lparr>compliance := Counts c\<rparr>)) = statusLabel INSUFFICIENT_DATA
      \<longleftrightarrow> TotalResourceCount c = 0 \<and> NonCompliantResourceCount c = 0) \<and>
   (snd (generateRuleSummaryItemHTML r (Counts c)) = statusLabel NON_COMPLIANT
      \<longleftrightarrow> NonCompliantResourceCount c > 0) \<and>
   (snd (generateRuleSummaryItemHTML r (Counts c)) = statusLabel COMPLIANT
      \<longleftrightarrow> NonCompliantResourceCount c = 0 \<and> TotalResourceCount c > 0) \<and>
   (snd (generateRuleSummaryItemHTML r (Counts c)) = statusLabel INSUFFICIENT_DATA
      \<longleftrightarrow> TotalResourceCount c = 0 \<and> NonCompliantResourceCount c = 0)"
  by (simp add: generateRuleItemHTML_def generateRuleSummaryItemHTML_def Let_def)

section \<open>Reconciliation of summary and detail\<close>

text \<open>
  C2. For a rule name whose entry in the detailed data is a non-empty list of
  evaluation results, the reconciled count is (number of COMPLIANT results,
  number of NON_COMPLIANT results, length of the list), whatever the summary said
  for that rule; when the list is empty the count from the summary, if there is
  one, is unchanged. In the rules widget the entry for an empty list is exactly
  the entry of the map built from the summary.
\<close>

theorem detail_overrides_summary:
  assumes "map_of detailed k = Some evs"
  shows "map_of (reconcile complianceResponse detailed) k =
           (if evs \<noteq> []
            then Some \<lparr>CompliantResourceCount =
                         length (filter (\<lambda>e. ComplianceType e = ''COMPLIANT'') evs),
                       NonCompliantResourceCount =
                         length (filter (\<lambda>e. ComplianceType e = ''NON_COMPLIANT'') evs),
                       TotalResourceCount = length evs\<rparr>
            else map_of (buildComplianceMap
                           (orEmpty (ComplianceSummaryByConfigRule complianceResponse))) k) \<and>
         (evs \<noteq> [] \<longrightarrow>
            map_of (summaryComplianceMap rs cs detailed) k =
              Some \<lparr>CompliantResourceCount =
                      length (filter (\<lambda>e. ComplianceType e = ''COMPLIANT'') evs),
                    NonCompliantResourceCount =
                      length (filter (\<lambda>e. ComplianceType e = ''NON_COMPLIANT'') evs),
                    TotalResourceCount = length evs\<rparr>) \<and>
         (evs = [] \<longrightarrow>
            (\<forall>c. map_of (buildComplianceMap cs) k = Some c \<longrightarrow>
                 map_of (summaryComplianceMap rs cs detailed) k = Some c))"
proof -
  have m: "\<And>m. map_of (mergeDetailed detailed m) k =
             (if evs \<noteq> [] then Some (detailCount evs) else map_of m k)"
    using assms by (simp add: map_of_mergeDetailed)
  have d: "detailCount evs =
             \<lparr>CompliantResourceCount =
                length (filter (\<lambda>e. ComplianceType e = ''COMPLIANT'') evs),
              NonCompliantResourceCount =
                length (filter (\<lambda>e. ComplianceType e = ''NON_COMPLIANT'') evs),
              TotalResourceCount = length evs\<rparr>"
    by (simp add: detailCount_def Let_def)
  have 1: "map_of (reconcile complianceResponse detailed) k =
             (if evs \<noteq> [] then Some (detailCount evs)
              else map_of (buildComplianceMap
                             (orEmpty (ComplianceSummaryByConfigRule complianceResponse))) k)"
    by (simp add: reconcile_def m)
  have 2: "evs \<noteq> [] \<longrightarrow>
             map_of (summaryComplianceMap rs cs detailed) k = Some (detailCount evs)"
    by (simp add: map_of_summaryComplianceMap_Some m)
  have 3: "evs = [] \<longrightarrow>
            (\<forall>c. map_of (buildComplianceMap cs) k = Some c \<longrightarrow>
                 map_of (summaryComplianceMap rs cs detailed) k = Some c)"
    by (simp add: map_of_summaryComplianceMap_Some m)
  show ?thesis using 1 2 3 unfolding d by blast
qed

text \<open>
  Scenario B of the specification (no summary, three NON_COMPLIANT results) and a
  rule with an empty detail list that keeps its summary count (5, 2, 7).
\<close>

theorem detail_overrides_summary_witness:
  "map_of (reconcile \<lparr>ComplianceSummaryByConfigRule = None\<rparr>
       [(''iam-password-policy'',
         [\<lparr>ComplianceType = ''NON_COMPLIANT'', ResourceId = None, ResourceType = None\<rparr>,
          \<lparr>ComplianceType = ''NON_COMPLIANT'', ResourceId = None, ResourceType = None\<rparr>,
          \<lparr>ComplianceType = ''NON_COMPLIANT'', ResourceId = None, ResourceType = None\<rparr>])])
     ''iam-password-policy''
   = Some \<lparr>CompliantResourceCount = 0, NonCompliantResourceCount = 3,
            TotalResourceCount = 3\<rparr> \<and>
   map_of (summaryComplianceMap []
       [\<lparr>SummaryRuleName = ''r1'',
         ComplianceSummary = \<lparr>SummaryCompliantResourceCount = Some 5,
           SummaryNonCompliantResourceCount = Some 2, SummaryTotalResourceCount = Some 7\<rparr>\<rparr>]
       [(''r1'', [])]) ''r1''
   = Some \<lparr>CompliantResourceCount = 5, NonCompliantResourceCount = 2,
            TotalResourceCount = 7\<rparr>"
  using detail_overrides_summary
          [of "[(''iam-password-policy'',
                 [\<lparr>ComplianceType = ''NON_COMPLIANT'', ResourceId = None, ResourceType = None\<rparr>,
                  \<lparr>ComplianceType = ''NON_COMPLIANT'', ResourceId = None, ResourceType = None\<rparr>,
                  \<lparr>ComplianceType = ''NON_COMPLIANT'', ResourceId = None, ResourceType = None\<rparr>])]"
              "''iam-password-policy''"
              "[\<lparr>ComplianceType = ''NON_COMPLIANT'', ResourceId = None, ResourceType = None\<rparr>,
                \<lparr>ComplianceType = ''NON_COMPLIANT'', ResourceId = None, ResourceType = None\<rparr>,
                \<lparr>ComplianceType = ''NON_COMPLIANT'', ResourceId = None, ResourceType = None\<rparr>]"
              "\<lparr>ComplianceSummaryByConfigRule = None\<rparr>" "[]" "[]"]
        detail_overrides_summary
          [of "[(''r1'', [])]" "''r1''" "[]" "\<lparr>ComplianceSummaryByConfigRule = None\<rparr>" "[]"
              "[\<lparr>SummaryRuleName = ''r1'',
                 ComplianceSummary = \<lparr>SummaryCompliantResourceCount = Some 5,
                   SummaryNonCompliantResourceCount = Some 2,
                   SummaryTotalResourceCount = Some 7\<rparr>\<rparr>]"]
  by (simp add: buildComplianceMap_def summaryEntry_def or0_def)

text \<open>
  C10. A count derived from the evaluation results of a rule has compliant +
  non-compliant \<le> total: every result counts in the total, the COMPLIANT and the
  NON_COMPLIANT ones in one bucket each, and the others (NOT_APPLICABLE among
  them) in neither. In particular total \<ge> compliant.
\<close>

theorem detail_counts_bounded:
  assumes "map_of detailed k = Some evs" and "evs \<noteq> []"
  shows "\<exists>c. map_of (reconcile complianceResponse detailed) k = Some c \<and>
             map_of (summaryComplianceMap rs cs detailed) k = Some c \<and>
             CompliantResourceCount c + NonCompliantResourceCount c \<le> TotalResourceCount c \<and>
             CompliantResourceCount c \<le> TotalResourceCount c \<and>
             TotalResourceCount c =
               CompliantResourceCount c + NonCompliantResourceCount c +
               length (filter (\<lambda>e. ComplianceType e \<noteq> ''COMPLIANT'' \<and>
                                     ComplianceType e \<noteq> ''NON_COMPLIANT'') evs) \<and>
             CompliantResourceCount c + NonCompliantResourceCount c +
               length (filter (\<lambda>e. ComplianceType e = ''NOT_APPLICABLE'') evs)
               \<le> TotalResourceCount c"
proof -
  have m: "\<And>m. map_of (mergeDetailed detailed m) k = Some (detailCount evs)"
    using assms by (simp add: map_of_mergeDetailed)
  have na: "length (filter (\<lambda>e. ComplianceType e = ''NOT_APPLICABLE'') evs)
              \<le> length (filter (\<lambda>e. ComplianceType e \<noteq> ''COMPLIANT'' \<and>
                                     ComplianceType e \<noteq> ''NON_COMPLIANT'') evs)"
    by (induction evs) auto
  have 1: "map_of (reconcile complianceResponse detailed) k = Some (detailCount evs)"
    by (simp add: reconcile_def m)
  have 2: "map_of (summaryComplianceMap rs cs detailed) k = Some (detailCount evs)"
    by (simp add: map_of_summaryComplianceMap_Some m)
  have 3: "TotalResourceCount (detailCount evs) =
             CompliantResourceCount (detailCount evs) +
             NonCompliantResourceCount (detailCount evs) +
             length (filter (\<lambda>e. ComplianceType e \<noteq> ''COMPLIANT'' \<and>
                                   ComplianceType e \<noteq> ''NON_COMPLIANT'') evs)"
    using filter_type_bound [of evs] by (simp add: detailCount_def Let_def)
  show ?thesis
    using 1 2 3 na by (intro exI [of _ "detailCount evs"]) simp
qed

text \<open>
  One COMPLIANT and one NOT_APPLICABLE result: the total exceeds the two buckets.
\<close>

theorem detail_counts_bounded_witness:
  "\<exists>c. map_of (reconcile \<lparr>ComplianceSummaryByConfigRule = None\<rparr>
            [(''root-account-mfa-enabled'',
              [\<lparr>ComplianceType = ''COMPLIANT'', ResourceId = None, ResourceType = None\<rparr>,
               \<lparr>ComplianceType = ''NOT_APPLICABLE'', ResourceId = None, ResourceType = None\<rparr>])])
          ''root-account-mfa-enabled'' = Some c \<and>
       CompliantResourceCount c + NonCompliantResourceCount c \<le> TotalResourceCount c \<and>
       CompliantResourceCount c + NonCompliantResourceCount c + 1 \<le> TotalResourceCount c"
  using detail_counts_bounded
          [of "[(''root-account-mfa-enabled'',
              [\<lparr>ComplianceType = ''COMPLIANT'', ResourceId = None, ResourceType = None\<rparr>,
               \<lparr>ComplianceType = ''NOT_APPLICABLE'', ResourceId = None, ResourceType = None\<rparr>])]"
              "''root-account-mfa-enabled''"
              "[\<lparr>ComplianceType = ''COMPLIANT'', ResourceId = None, ResourceType = None\<rparr>,
               \<lparr>ComplianceType = ''NOT_APPLICABLE'', ResourceId = None, ResourceType = None\<rparr>]"
              "\<lparr>ComplianceSummaryByConfigRule = None\<rparr>" "[]" "[]"]
  by auto

section \<open>Filtering\<close>

text \<open>
  The processed rules are the filtered rules, each with its count attached.
\<close>

lemma rules_processConfigData:
  "rules (processConfigData rr cr params detailed acct) =
     map (\<lambda>r. withCompliance r (lookupOrZero (reconcile cr detailed) (ConfigRuleName r)))
       (filterRules (reconcile cr detailed) params (orEmpty (ConfigRules rr)))"
  by (simp add: processConfigData_def Let_def)

lemma map_ruleOf_processConfigData:
  "map ruleOf (rules (processConfigData rr cr params detailed acct)) =
     filterRules (reconcile cr detailed) params (orEmpty (ConfigRules rr))"
  by (simp add: rules_processConfigData ruleOf_withCompliance comp_def)

text \<open>
  C4. The filtered rules are a subsequence of the rules given: every rule of the
  output is a rule of the input, none occurs more often than in the input, and the
  catalog order is kept. This holds for every rule list and every filter
  specification, for the filter alone and for the rules of the processed data
  with their counts taken off again. The functions are values to values: the
  filter builds a new list and the input list is the same before and after.
\<close>

theorem filter_output_subseq:
  "subseq (filterRules m params rs) rs \<and>
   subseq (map ruleOf (rules (processConfigData rr cr params detailed acct)))
     (orEmpty (ConfigRules rr))"
  by (simp add: map_ruleOf_processConfigData subseq_filterRules)

lemma resourceTypeFilter_iff:
  "resourceTypeFilter ts r \<longleftrightarrow> set (scopeTypes r) \<inter> set ts \<noteq> {}"
  by (auto simp: resourceTypeFilter_def scopeTypes_def orEmpty_def list_ex_iff
           split: option.splits)

text \<open>
  C5. Under a non-empty \<^verbatim>\<open>resourceTypes\<close> filter, a rule whose scope is absent or has
  no resource types is not in the output; and a rule is in the output exactly when
  it is in the output of the same filter specification without \<^verbatim>\<open>resourceTypes\<close>
  and at least one resource type of its scope is in the filter set.
\<close>

theorem resource_type_filter_fails_closed:
  assumes "resourceTypes params = Some ts" and "ts \<noteq> []"
  shows "(scopeTypes r = [] \<longrightarrow>
            r \<notin> set (filterRules m params rs) \<and>
            r \<notin> set (map ruleOf (rules (processConfigData rr cr params detailed acct)))) \<and>
         (r \<in> set (filterRules m params rs) \<longleftrightarrow>
            r \<in> set (filterRules m (params\<lparr>resourceTypes := None\<rparr>) rs) \<and>
            set (scopeTypes r) \<inter> set ts \<noteq> {})"
  using assms
  by (auto simp: map_ruleOf_processConfigData set_filterRules resourceTypeFilter_iff)

theorem resource_type_filter_fails_closed_witness:
  "scopeTypes \<lparr>ConfigRuleName = ''iam-password-policy'', Description = None,
               Scope = Some \<lparr>ComplianceResourceTypes = Some []\<rparr>\<rparr> = [] \<and>
   filterRules []
     \<lparr>ruleNames = None, resourceTypes = Some [''AWS::S3::Bucket''], complianceStatus = None,
      ruleName = None\<rparr>
     [\<lparr>ConfigRuleName = ''iam-password-policy'', Description = None,
       Scope = Some \<lparr>ComplianceResourceTypes = Some []\<rparr>\<rparr>,
      \<lparr>ConfigRuleName = ''s3-rule'', Description = None,
       Scope = Some \<lparr>ComplianceResourceTypes = Some [''AWS::S3::Bucket'']\<rparr>\<rparr>]
   = [\<lparr>ConfigRuleName = ''s3-rule'', Description = None,
       Scope = Some \<lparr>ComplianceResourceTypes = Some [''AWS::S3::Bucket'']\<rparr>\<rparr>] \<and>
   \<lparr>ConfigRuleName = ''iam-password-policy'', Description = None,
    Scope = Some \<lparr>ComplianceResourceTypes = Some []\<rparr>\<rparr>
   \<notin> set (filterRules []
     \<lparr>ruleNames = None, resourceTypes = Some [''AWS::S3::Bucket''], complianceStatus = None,
      ruleName = None\<rparr>
     [\<lparr>ConfigRuleName = ''iam-password-policy'', Description = None,
       Scope = Some \<lparr>ComplianceResourceTypes = Some []\<rparr>\<rparr>,
      \<lparr>ConfigRuleName = ''s3-rule'', Description = None,
       Scope = Some \<lparr>ComplianceResourceTypes = Some [''AWS::S3::Bucket'']\<rparr>\<rparr>])"
  using resource_type_filter_fails_closed
          [of "\<lparr>ruleNames = None, resourceTypes = Some [''AWS::S3::Bucket''],
                complianceStatus = None, ruleName = None\<rparr>"
              "[''AWS::S3::Bucket'']"
              "\<lparr>ConfigRuleName = ''iam-password-policy'', Description = None,
                Scope = Some \<lparr>ComplianceResourceTypes = Some []\<rparr>\<rparr>"
              "[]"
              "[\<lparr>ConfigRuleName = ''iam-password-policy'', Description = None,
                 Scope = Some \<lparr>ComplianceResourceTypes = Some []\<rparr>\<rparr>,
                \<lparr>ConfigRuleName = ''s3-rule'', Description = None,
                 Scope = Some \<lparr>ComplianceResourceTypes = Some [''AWS::S3::Bucket'']\<rparr>\<rparr>]"]
  by (simp add: scopeTypes_def orEmpty_def filterRules_def resourceTypeFilter_def)

lemma reconcile_absent:
  assumes "ConfigRuleName r \<notin> SummaryRuleName ` set (orEmpty (ComplianceSummaryByConfigRule cr))"
    and "ConfigRuleName r \<notin> fst ` set detailed"
  shows "map_of (reconcile cr detailed) (ConfigRuleName r) = None"
proof -
  have "map_of detailed (ConfigRuleName r) = None"
    using assms(2) by (simp add: map_of_eq_None_iff)
  then show ?thesis
    using assms(1) by (simp add: reconcile_def map_of_mergeDetailed buildComplianceMap_absent)
qed

lemma noParams_filterRules: "filterRules m noParams rs = rs"
  by (simp add: filterRules_def noParams_def)

lemma processed_form:
  assumes "p \<in> set (rules (processConfigData rr cr params detailed acct))"
    and "ruleOf p = r"
  shows "p = withCompliance r (lookupOrZero (reconcile cr detailed) (ConfigRuleName r))"
  using assms
  by (auto simp: rules_processConfigData ruleOf_withCompliance)

lemma unfiltered_member:
  assumes "r \<in> set (orEmpty (ConfigRules rr))"
  shows "withCompliance r (lookupOrZero (reconcile cr detailed) (ConfigRuleName r))
           \<in> set (rules (processConfigData rr cr noParams detailed acct))"
proof -
  have "withCompliance r (lookupOrZero (reconcile cr detailed) (ConfigRuleName r))
          \<in> (\<lambda>r. withCompliance r (lookupOrZero (reconcile cr detailed) (ConfigRuleName r)))
              ` set (orEmpty (ConfigRules rr))"
    using assms by (rule imageI)
  then show ?thesis
    by (simp add: rules_processConfigData noParams_filterRules)
qed

lemma status_without_entry:
  assumes "map_of m k = None"
  shows "generateRuleItemHTML (withCompliance r (lookupOrZero m k)) =
           (''status-insufficient'', ''Insufficient Data'')"
proof -
  have "readNonCompliantResourceCount (lookupOrZero m k) = None \<or>
        lookupOrZero m k = Counts zeroCount"
    using getProperty_None_reads [OF assms] by (simp add: lookupOrZero_def)
  then show ?thesis
    by (auto simp: generateRuleItemHTML_def withCompliance_def zeroCount_def Let_def)
qed

lemma summary_item_without_entry:
  assumes "map_of m k = None"
  shows "generateRuleSummaryItemHTML r (getProperty m k) =
           (''compliance-insufficient'', ''Insufficient Data'')"
  using getProperty_None_reads [OF assms]
  by (simp add: generateRuleSummaryItemHTML_def zeroCount_def Let_def)

lemma statusFilter_without_entry:
  assumes "map_of m (ConfigRuleName r) = None"
    and "(\<exists>k. st = statusValue k) \<or> \<not> truthy (getProperty m (ConfigRuleName r))"
  shows "\<not> statusFilter m st r"
proof (cases "truthy (getProperty m (ConfigRuleName r))")
  case False
  then show ?thesis by (simp add: statusFilter_def)
next
  case True
  with assms(2) obtain k where "st = statusValue k" by blast
  then show ?thesis
    using getProperty_None_reads [OF assms(1)]
    by (cases k) (simp_all add: statusFilter_def Let_def)
qed

lemma summary_processConfigData:
  "summary (processConfigData rr cr params detailed acct) =
     \<lparr>total = length (rules (processConfigData rr cr params detailed acct)),
      compliant =
        length (filter (\<lambda>p. readNonCompliantResourceCount (compliance p) = Some 0 \<and>
                             positive (readTotalResourceCount (compliance p)))
                  (rules (processConfigData rr cr params detailed acct))),
      nonCompliant =
        length (filter (\<lambda>p. positive (readNonCompliantResourceCount (compliance p)))
                  (rules (processConfigData rr cr params detailed acct))),
      insufficientData =
        length (filter (\<lambda>p. readTotalResourceCount (compliance p) = Some 0)
                  (rules (processConfigData rr cr params detailed acct)))\<rparr>"
  by (simp add: processConfigData_def Let_def)

lemma reconcile_empty: "reconcile \<lparr>ComplianceSummaryByConfigRule = Some []\<rparr> [] = []"
  by (simp add: reconcile_def orEmpty_def buildComplianceMap_def mergeDetailed_def)

lemma getProperty_constructor: "getProperty [] ''constructor'' = InheritedObject"
  by (simp add: getProperty_def objectPrototypeNames_def)

lemma getProperty_plain:
  "map_of m k = None \<Longrightarrow> map_of m ''__proto__'' = None \<Longrightarrow>
   k \<notin> set objectPrototypeNames \<Longrightarrow> getProperty m k = Undefined"
  by (simp add: getProperty_def)

lemma plain_names:
  "''r1'' \<notin> set objectPrototypeNames" "''r2'' \<notin> set objectPrototypeNames"
  by (simp_all add: objectPrototypeNames_def)

section \<open>Rules without compliance data\<close>

text \<open>
  C7. A rule of the catalog that is in neither the summary nor the detailed data
  is to carry the zero count (0, 0, 0) and to be shown as Insufficient Data. The
  count is attached by \<^verbatim>\<open>complianceMap[name] || {0, 0, 0}\<close>, and for a rule named
  \<^verbatim>\<open>constructor\<close> the read gives the function inherited from \<^verbatim>\<open>Object.prototype\<close>,
  which is truthy: that value is attached, not the zero count. The rule is still
  shown as Insufficient Data, and the summary of the rules widget counts it in no
  bucket.
\<close>

theorem inherited_name_not_zero_count:
  "map compliance (rules (processConfigData
      \<lparr>ConfigRules = Some [\<lparr>ConfigRuleName = ''constructor'', Description = None,
                             Scope = None\<rparr>]\<rparr>
      \<lparr>ComplianceSummaryByConfigRule = Some []\<rparr>
      \<lparr>ruleNames = None, resourceTypes = None, complianceStatus = None, ruleName = None\<rparr>
      [] None))
   = [InheritedObject] \<and>
   map generateRuleItemHTML (rules (processConfigData
      \<lparr>ConfigRules = Some [\<lparr>ConfigRuleName = ''constructor'', Description = None,
                             Scope = None\<rparr>]\<rparr>
      \<lparr>ComplianceSummaryByConfigRule = Some []\<rparr>
      \<lparr>ruleNames = None, resourceTypes = None, complianceStatus = None, ruleName = None\<rparr>
      [] None))
   = [(''status-insufficient'', statusLabel INSUFFICIENT_DATA)] \<and>
   summary (processConfigData
      \<lparr>ConfigRules = Some [\<lparr>ConfigRuleName = ''constructor'', Description = None,
                             Scope = None\<rparr>]\<rparr>
      \<lparr>ComplianceSummaryByConfigRule = Some []\<rparr>
      \<lparr>ruleNames = None, resourceTypes = None, complianceStatus = None, ruleName = None\<rparr>
      [] None)
   = \<lparr>total = 1, compliant = 0, nonCompliant = 0, insufficientData = 0\<rparr>"
proof -
  let ?rr = "\<lparr>ConfigRules = Some [\<lparr>ConfigRuleName = ''constructor'', Description = None,
                                    Scope = None\<rparr>]\<rparr>"
  let ?cr = "\<lparr>ComplianceSummaryByConfigRule = Some []\<rparr>"
  let ?ps = "\<lparr>ruleNames = None, resourceTypes = None, complianceStatus = None,
              ruleName = None\<rparr>"
  have r: "rules (processConfigData ?rr ?cr ?ps [] None) =
             [withCompliance \<lparr>ConfigRuleName = ''constructor'', Description = None,
                              Scope = None\<rparr> InheritedObject]"
    by (simp add: rules_processConfigData reconcile_empty orEmpty_def filterRules_def
          lookupOrZero_def getProperty_constructor)
  have 1: "map compliance (rules (processConfigData ?rr ?cr ?ps [] None)) = [InheritedObject]"
    by (simp add: r withCompliance_def)
  have 2: "map generateRuleItemHTML (rules (processConfigData ?rr ?cr ?ps [] None)) =
             [(''status-insufficient'', statusLabel INSUFFICIENT_DATA)]"
    by (simp add: r withCompliance_def generateRuleItemHTML_def)
  have 3: "summary (processConfigData ?rr ?cr ?ps [] None) =
             \<lparr>total = 1, compliant = 0, nonCompliant = 0, insufficientData = 0\<rparr>"
    by (simp add: summary_processConfigData r withCompliance_def)
  show ?thesis using 1 2 3 by blast
qed

text \<open>
  For every other rule the code does what it attempts. A rule that is in neither
  the summary nor the detailed data, and whose name reads as \<^verbatim>\<open>undefined\<close> in the
  lookup map, carries the zero count wherever it occurs in the processed rules,
  and occurs there when no filter is supplied; and every rule that is in neither
  the summary nor the detailed data is shown as Insufficient Data by both widgets.
\<close>

lemma zero_count_when_undefined:
  assumes "ConfigRuleName r \<notin> SummaryRuleName ` set (orEmpty (ComplianceSummaryByConfigRule cr))"
    and "ConfigRuleName r \<notin> fst ` set detailed"
    and "\<not> truthy (getProperty (reconcile cr detailed) (ConfigRuleName r))"
  shows "(\<forall>p \<in> set (rules (processConfigData rr cr params detailed acct)).
            ruleOf p = r \<longrightarrow>
              compliance p = Counts \<lparr>CompliantResourceCount = 0, NonCompliantResourceCount = 0,
                                     TotalResourceCount = 0\<rparr>) \<and>
         (r \<in> set (orEmpty (ConfigRules rr)) \<longrightarrow>
            withCompliance r (Counts \<lparr>CompliantResourceCount = 0,
                                       NonCompliantResourceCount = 0,
                                       TotalResourceCount = 0\<rparr>)
              \<in> set (rules (processConfigData rr cr noParams detailed acct)))"
proof -
  have z: "lookupOrZero (reconcile cr detailed) (ConfigRuleName r) = Counts zeroCount"
    using assms(3) by (simp add: lookupOrZero_def)
  have 1: "\<forall>p \<in> set (rules (processConfigData rr cr params detailed acct)).
            ruleOf p = r \<longrightarrow> compliance p = Counts zeroCount"
  proof (intro ballI impI)
    fix p
    assume "p \<in> set (rules (processConfigData rr cr params detailed acct))" and "ruleOf p = r"
    then have "p = withCompliance r (lookupOrZero (reconcile cr detailed) (ConfigRuleName r))"
      by (rule processed_form)
    then show "compliance p = Counts zeroCount"
      by (simp add: z withCompliance_def)
  qed
  have 2: "r \<in> set (orEmpty (ConfigRules rr)) \<longrightarrow>
            withCompliance r (Counts zeroCount)
              \<in> set (rules (processConfigData rr cr noParams detailed acct))"
    using unfiltered_member [of r rr cr detailed acct] by (simp add: z)
  show ?thesis using 1 2 unfolding zeroCount_def by blast
qed

lemma shown_insufficient_without_data:
  assumes "ConfigRuleName r \<notin> SummaryRuleName ` set (orEmpty (ComplianceSummaryByConfigRule cr))"
    and "ConfigRuleName r \<notin> fst ` set detailed"
  shows "(\<forall>p \<in> set (rules (processConfigData rr cr params detailed acct)).
            ruleOf p = r \<longrightarrow> snd (generateRuleItemHTML p) = statusLabel INSUFFICIENT_DATA) \<and>
         (r \<in> set rs \<longrightarrow>
            (r, ''compliance-insufficient'', statusLabel INSUFFICIENT_DATA)
              \<in> set (ruleItems (generateComplianceSummaryHTML rs
                                  (orEmpty (ComplianceSummaryByConfigRule cr)) detailed)))"
proof -
  have none: "map_of (reconcile cr detailed) (ConfigRuleName r) = None"
    using assms by (rule reconcile_absent)
  have 1: "\<forall>p \<in> set (rules (processConfigData rr cr params detailed acct)).
            ruleOf p = r \<longrightarrow> snd (generateRuleItemHTML p) = statusLabel INSUFFICIENT_DATA"
  proof (intro ballI impI)
    fix p
    assume "p \<in> set (rules (processConfigData rr cr params detailed acct))" and "ruleOf p = r"
    then have "p = withCompliance r (lookupOrZero (reconcile cr detailed) (ConfigRuleName r))"
      by (rule processed_form)
    then show "snd (generateRuleItemHTML p) = statusLabel INSUFFICIENT_DATA"
      by (simp add: status_without_entry [OF none])
  qed
  have m: "map_of (mergeDetailed detailed
                    (buildComplianceMap (orEmpty (ComplianceSummaryByConfigRule cr))))
             (ConfigRuleName r) = None"
    using none by (simp add: reconcile_def)
  have "map_of (summaryComplianceMap rs (orEmpty (ComplianceSummaryByConfigRule cr)) detailed)
          (ConfigRuleName r) = None \<or>
        map_of (summaryComplianceMap rs (orEmpty (ComplianceSummaryByConfigRule cr)) detailed)
          (ConfigRuleName r) = Some zeroCount"
    using m by (auto simp: summaryComplianceMap_def Let_def update_conv')
  then have "generateRuleSummaryItemHTML r
               (getProperty (summaryComplianceMap rs
                               (orEmpty (ComplianceSummaryByConfigRule cr)) detailed)
                  (ConfigRuleName r)) =
             (''compliance-insufficient'', ''Insufficient Data'')"
  proof
    assume "map_of (summaryComplianceMap rs (orEmpty (ComplianceSummaryByConfigRule cr))
                      detailed) (ConfigRuleName r) = None"
    then show ?thesis by (rule summary_item_without_entry)
  next
    assume "map_of (summaryComplianceMap rs (orEmpty (ComplianceSummaryByConfigRule cr))
                      detailed) (ConfigRuleName r) = Some zeroCount"
    then show ?thesis
      by (simp add: getProperty_Some generateRuleSummaryItemHTML_def zeroCount_def)
  qed
  then have 2: "r \<in> set rs \<longrightarrow>
            (r, ''compliance-insufficient'', statusLabel INSUFFICIENT_DATA)
              \<in> set (ruleItems (generateComplianceSummaryHTML rs
                                  (orEmpty (ComplianceSummaryByConfigRule cr)) detailed))"
    by (auto simp: generateComplianceSummaryHTML_def Let_def image_iff)
  show ?thesis using 1 2 by blast
qed



text \<open>
  A value that the parameter does not admit, here \<^verbatim>\<open>FOO\<close>, passes the guard on a
  missing entry for the rule \<^verbatim>\<open>constructor\<close> and reaches the final \<^verbatim>\<open>return true\<close>.
\<close>

lemma unrecognised_status_keeps_inherited_name:
  "map ruleOf (rules (processConfigData
      \<lparr>ConfigRules = Some [\<lparr>ConfigRuleName = ''constructor'', Description = None,
                             Scope = None\<rparr>]\<rparr>
      \<lparr>ComplianceSummaryByConfigRule = Some []\<rparr>
      \<lparr>ruleNames = None, resourceTypes = None, complianceStatus = Some ''FOO'',
       ruleName = None\<rparr>
      [] None))
   = [\<lparr>ConfigRuleName = ''constructor'', Description = None, Scope = None\<rparr>]"
  by (simp add: map_ruleOf_processConfigData reconcile_empty orEmpty_def filterRules_def
        statusFilter_def getProperty_constructor)

section \<open>Failure of one evaluation-detail read\<close>

text \<open>
  Removing the failing name from the detailed data commutes with every iteration
  of the prefetch loop.
\<close>

lemma prefetchStep_delete:
  assumes "reader n = Inl err" and "\<forall>k. k \<noteq> n \<longrightarrow> reader' k = reader k"
  shows "AList.delete n (prefetchStep rr reader' a d) =
           prefetchStep rr reader a (AList.delete n d)"
proof (cases "a = n")
  case True
  with assms(1) show ?thesis
    by (simp add: prefetchStep_def delete_update_same split: sum.splits)
next
  case False
  with assms(2) have "reader' a = reader a" by simp
  with False show ?thesis
    by (simp add: prefetchStep_def delete_update split: sum.splits)
qed

lemma prefetchStepSummary_delete:
  assumes "reader n = Inl err" and "\<forall>k. k \<noteq> n \<longrightarrow> reader' k = reader k"
  shows "AList.delete n (prefetchStepSummary rr reader' a d) =
           prefetchStepSummary rr reader a (AList.delete n d)"
proof (cases "a = n")
  case True
  with assms(1) show ?thesis
    by (simp add: prefetchStepSummary_def delete_update_same split: sum.splits option.splits)
next
  case False
  with assms(2) have "reader' a = reader a" by simp
  with False show ?thesis
    by (simp add: prefetchStepSummary_def delete_update split: sum.splits option.splits)
qed

lemma fold_prefetchStep_delete:
  assumes "reader n = Inl err" and "\<forall>k. k \<noteq> n \<longrightarrow> reader' k = reader k"
  shows "AList.delete n (fold (prefetchStep rr reader') ns d) =
           fold (prefetchStep rr reader) ns (AList.delete n d)"
proof (induction ns arbitrary: d)
  case Nil
  show ?case by simp
next
  case (Cons a ns)
  show ?case
    by (simp add: Cons.IH prefetchStep_delete [OF assms])
qed

lemma fold_prefetchStepSummary_delete:
  assumes "reader n = Inl err" and "\<forall>k. k \<noteq> n \<longrightarrow> reader' k = reader k"
  shows "AList.delete n (fold (prefetchStepSummary rr reader') ns d) =
           fold (prefetchStepSummary rr reader) ns (AList.delete n d)"
proof (induction ns arbitrary: d)
  case Nil
  show ?case by simp
next
  case (Cons a ns)
  show ?case
    by (simp add: Cons.IH prefetchStepSummary_delete [OF assms])
qed

text \<open>
  C8. When the evaluation-detail read of one account-level rule name fails, the
  loop goes on with the other names, and the detailed data it builds is the
  detailed data of any run that differs only in the outcome of that one read,
  with that rule's entry absent. The failure does not reach the caller: with the
  three other reads successful the handler returns the processed data of that
  detailed data (and \<^verbatim>\<open>getDetailedComplianceData\<close> its summary data), and the rule's
  entry in the lookup map is the one it had before the merge of the detailed data
  (its summary count, or none, which is shown as the zero count).
\<close>

theorem detail_failure_isolated:
  assumes "reader n = Inl err" and "\<forall>k. k \<noteq> n \<longrightarrow> reader' k = reader k"
  shows "prefetchDetails rr reader = AList.delete n (prefetchDetails rr reader') \<and>
         prefetchDetailsSummary rr reader = AList.delete n (prefetchDetailsSummary rr reader') \<and>
         handler (Inr acct) (Inr rr) (Inr cr) reader params =
           Inr (processConfigData rr cr params
                  (AList.delete n (prefetchDetails rr reader')) acct) \<and>
         getComplianceSummaryData (Inr acct) (Inr rr) (Inr cr) reader =
           Inr (ComplianceSummaryData (orEmpty (ConfigRules rr))
                  (orEmpty (ComplianceSummaryByConfigRule cr))
                  (AList.delete n (prefetchDetailsSummary rr reader')) acct) \<and>
         map_of (mergeDetailed (prefetchDetails rr reader) m) n = map_of m n \<and>
         map_of (mergeDetailed (prefetchDetailsSummary rr reader) m) n = map_of m n"
proof -
  have 1: "prefetchDetails rr reader = AList.delete n (prefetchDetails rr reader')"
    by (simp add: prefetchDetails_def fold_prefetchStep_delete [OF assms])
  have 2: "prefetchDetailsSummary rr reader =
             AList.delete n (prefetchDetailsSummary rr reader')"
    by (simp add: prefetchDetailsSummary_def fold_prefetchStepSummary_delete [OF assms])
  have 3: "map_of (prefetchDetails rr reader) n = None"
    by (simp add: 1 delete_conv')
  have 4: "map_of (prefetchDetailsSummary rr reader) n = None"
    by (simp add: 2 delete_conv')
  have 5: "map_of (mergeDetailed (prefetchDetails rr reader) m) n = map_of m n"
    by (simp add: map_of_mergeDetailed 3)
  have 6: "map_of (mergeDetailed (prefetchDetailsSummary rr reader) m) n = map_of m n"
    by (simp add: map_of_mergeDetailed 4)
  have 7: "handler (Inr acct) (Inr rr) (Inr cr) reader params =
           Inr (processConfigData rr cr params
                  (AList.delete n (prefetchDetails rr reader')) acct)"
    by (simp add: handler_def 1)
  have 8: "getComplianceSummaryData (Inr acct) (Inr rr) (Inr cr) reader =
           Inr (ComplianceSummaryData (orEmpty (ConfigRules rr))
                  (orEmpty (ComplianceSummaryByConfigRule cr))
                  (AList.delete n (prefetchDetailsSummary rr reader')) acct)"
    by (simp add: getComplianceSummaryData_def 2)
  show ?thesis
    using 1 2 5 6 7 8 by blast
qed

text \<open>
  The read of \<^verbatim>\<open>iam-password-policy\<close> is throttled, the read of
  \<^verbatim>\<open>iam-user-mfa-enabled\<close> succeeds and is kept.
\<close>

theorem detail_failure_isolated_witness:
  "prefetchDetails
     \<lparr>ConfigRules = Some [\<lparr>ConfigRuleName = ''iam-password-policy'', Description = None,
                            Scope = None\<rparr>,
                           \<lparr>ConfigRuleName = ''iam-user-mfa-enabled'', Description = None,
                            Scope = None\<rparr>]\<rparr>
     (\<lambda>k. if k = ''iam-password-policy'' then Inl ''Throttled''
          else Inr (Some [\<lparr>ComplianceType = ''NON_COMPLIANT'', ResourceId = None,
                           ResourceType = None\<rparr>]))
   = [(''iam-user-mfa-enabled'',
       [\<lparr>ComplianceType = ''NON_COMPLIANT'', ResourceId = None, ResourceType = None\<rparr>])] \<and>
   AList.delete ''iam-password-policy''
     (prefetchDetails
        \<lparr>ConfigRules = Some [\<lparr>ConfigRuleName = ''iam-password-policy'', Description = None,
                               Scope = None\<rparr>,
                              \<lparr>ConfigRuleName = ''iam-user-mfa-enabled'', Description = None,
                               Scope = None\<rparr>]\<rparr>
        (\<lambda>k. Inr (Some [\<lparr>ComplianceType = ''NON_COMPLIANT'', ResourceId = None,
                          ResourceType = None\<rparr>])))
   = [(''iam-user-mfa-enabled'',
       [\<lparr>ComplianceType = ''NON_COMPLIANT'', ResourceId = None, ResourceType = None\<rparr>])]"
  using detail_failure_isolated
          [of "\<lambda>k. if k = ''iam-password-policy'' then Inl ''Throttled''
                   else Inr (Some [\<lparr>ComplianceType = ''NON_COMPLIANT'', ResourceId = None,
                                    ResourceType = None\<rparr>])"
              "''iam-password-policy''" "''Throttled''"
              "\<lambda>k. Inr (Some [\<lparr>ComplianceType = ''NON_COMPLIANT'', ResourceId = None,
                                ResourceType = None\<rparr>])"
              "\<lparr>ConfigRules = Some [\<lparr>ConfigRuleName = ''iam-password-policy'',
                                      Description = None, Scope = None\<rparr>,
                                     \<lparr>ConfigRuleName = ''iam-user-mfa-enabled'',
                                      Description = None, Scope = None\<rparr>]\<rparr>"]
  by (simp add: prefetchDetails_def prefetchStep_def accountLevelRules_def ruleExists_def
        orEmpty_def)

section \<open>The compliance-status filter\<close>

text \<open>
  The status text shown for a rule, by cases on its entry in the lookup map.
\<close>

lemma displayedStatus_cases:
  "displayedStatus m r =
     (case map_of m (ConfigRuleName r) of
        None \<Rightarrow> ''Insufficient Data''
      | Some c \<Rightarrow>
          if NonCompliantResourceCount c = 0 \<and> TotalResourceCount c > 0 then ''Compliant''
          else if NonCompliantResourceCount c > 0 then ''Non-Compliant''
          else ''Insufficient Data'')"
proof (cases "map_of m (ConfigRuleName r)")
  case None
  then show ?thesis
    by (simp add: displayedStatus_def status_without_entry)
next
  case (Some c)
  then show ?thesis
    by (simp add: displayedStatus_def generateRuleItemHTML_def withCompliance_def
          lookupOrZero_def getProperty_Some Let_def)
qed

lemma statusFilter_Some:
  "map_of m (ConfigRuleName r) = Some c \<Longrightarrow>
   statusFilter m st r =
     (if st = ''COMPLIANT''
      then NonCompliantResourceCount c = 0 \<and> TotalResourceCount c > 0
      else if st = ''NON_COMPLIANT'' then NonCompliantResourceCount c > 0
      else if st = ''INSUFFICIENT_DATA'' then TotalResourceCount c = 0
      else True)"
  by (simp add: statusFilter_def getProperty_Some Let_def)

lemma statusFilter_value_iff:
  assumes "k \<noteq> INSUFFICIENT_DATA"
  shows "statusFilter m (statusValue k) r \<longleftrightarrow> displayedStatus m r = statusLabel k"
proof (cases "map_of m (ConfigRuleName r)")
  case None
  then have "\<not> statusFilter m (statusValue k) r"
    by (rule statusFilter_without_entry) blast
  with None assms show ?thesis
    by (cases k) (simp_all add: displayedStatus_cases)
next
  case (Some c)
  with assms show ?thesis
    by (cases k) (auto simp: statusFilter_Some displayedStatus_cases)
qed

lemma statusFilter_insufficient_iff:
  "map_of m (ConfigRuleName r) = Some c \<Longrightarrow>
   NonCompliantResourceCount c = 0 \<or> TotalResourceCount c > 0 \<Longrightarrow>
   statusFilter m (statusValue INSUFFICIENT_DATA) r \<longleftrightarrow>
     displayedStatus m r = statusLabel INSUFFICIENT_DATA"
  by (auto simp: statusFilter_Some displayedStatus_cases)

lemma statusValue_nonempty: "statusValue k \<noteq> []"
  by (cases k) simp_all

lemma set_filterRules_status:
  "r \<in> set (filterRules m (params\<lparr>complianceStatus := Some (statusValue k)\<rparr>) rs) \<longleftrightarrow>
   r \<in> set (filterRules m (params\<lparr>complianceStatus := None\<rparr>) rs) \<and>
   statusFilter m (statusValue k) r"
  by (auto simp: set_filterRules statusValue_nonempty)

text \<open>
  C6 (as amended). For the \<^verbatim>\<open>complianceStatus\<close> values COMPLIANT and NON_COMPLIANT a
  rule is in the filtered output exactly when it is in the output of the same
  filter specification without \<^verbatim>\<open>complianceStatus\<close> and its displayed classification
  is that value. For INSUFFICIENT_DATA a rule without entry in the reconciled
  lookup map is never in the output, and a rule whose entry does not combine a
  positive non-compliant count with a zero total is in the output exactly when its
  displayed classification is Insufficient Data. Filtering by COMPLIANT returns
  only rules that carry counts with non-compliant count 0 and positive total.
\<close>

theorem status_filter_matches_classification:
  "(k \<noteq> INSUFFICIENT_DATA \<longrightarrow>
      (r \<in> set (filterRules m (params\<lparr>complianceStatus := Some (statusValue k)\<rparr>) rs) \<longleftrightarrow>
       r \<in> set (filterRules m (params\<lparr>complianceStatus := None\<rparr>) rs) \<and>
       displayedStatus m r = statusLabel k)) \<and>
   (map_of m (ConfigRuleName r) = None \<longrightarrow>
      r \<notin> set (filterRules m
                  (params\<lparr>complianceStatus := Some (statusValue INSUFFICIENT_DATA)\<rparr>) rs)) \<and>
   (\<forall>c. map_of m (ConfigRuleName r) = Some c \<and>
        (NonCompliantResourceCount c = 0 \<or> TotalResourceCount c > 0) \<longrightarrow>
      (r \<in> set (filterRules m
                  (params\<lparr>complianceStatus := Some (statusValue INSUFFICIENT_DATA)\<rparr>) rs) \<longleftrightarrow>
       r \<in> set (filterRules m (params\<lparr>complianceStatus := None\<rparr>) rs) \<and>
       displayedStatus m r = statusLabel INSUFFICIENT_DATA)) \<and>
   (\<forall>p \<in> set (rules (processConfigData rr cr
                        (params\<lparr>complianceStatus := Some (statusValue COMPLIANT)\<rparr>)
                        detailed acct)).
      \<exists>c. compliance p = Counts c \<and>
          NonCompliantResourceCount c = 0 \<and> TotalResourceCount c > 0)"
proof -
  have 1: "k \<noteq> INSUFFICIENT_DATA \<longrightarrow>
      (r \<in> set (filterRules m (params\<lparr>complianceStatus := Some (statusValue k)\<rparr>) rs) \<longleftrightarrow>
       r \<in> set (filterRules m (params\<lparr>complianceStatus := None\<rparr>) rs) \<and>
       displayedStatus m r = statusLabel k)"
    by (simp only: set_filterRules_status) (metis statusFilter_value_iff)
  have 2: "map_of m (ConfigRuleName r) = None \<longrightarrow>
      r \<notin> set (filterRules m
                  (params\<lparr>complianceStatus := Some (statusValue INSUFFICIENT_DATA)\<rparr>) rs)"
    by (simp only: set_filterRules_status)
       (metis statusFilter_without_entry)
  have 3: "\<forall>c. map_of m (ConfigRuleName r) = Some c \<and>
        (NonCompliantResourceCount c = 0 \<or> TotalResourceCount c > 0) \<longrightarrow>
      (r \<in> set (filterRules m
                  (params\<lparr>complianceStatus := Some (statusValue INSUFFICIENT_DATA)\<rparr>) rs) \<longleftrightarrow>
       r \<in> set (filterRules m (params\<lparr>complianceStatus := None\<rparr>) rs) \<and>
       displayedStatus m r = statusLabel INSUFFICIENT_DATA)"
    by (simp only: set_filterRules_status) (metis statusFilter_insufficient_iff)
  have 4: "\<forall>p \<in> set (rules (processConfigData rr cr
                        (params\<lparr>complianceStatus := Some (statusValue COMPLIANT)\<rparr>)
                        detailed acct)).
      \<exists>c. compliance p = Counts c \<and>
          NonCompliantResourceCount c = 0 \<and> TotalResourceCount c > 0"
  proof
    fix p
    assume "p \<in> set (rules (processConfigData rr cr
                        (params\<lparr>complianceStatus := Some (statusValue COMPLIANT)\<rparr>)
                        detailed acct))"
    then obtain q where q: "q \<in> set (filterRules (reconcile cr detailed)
                              (params\<lparr>complianceStatus := Some (statusValue COMPLIANT)\<rparr>)
                              (orEmpty (ConfigRules rr)))"
      and p: "p = withCompliance q (lookupOrZero (reconcile cr detailed) (ConfigRuleName q))"
      by (auto simp: rules_processConfigData)
    from q have "statusFilter (reconcile cr detailed) (statusValue COMPLIANT) q"
      by (simp only: set_filterRules_status)
    then have "truthy (getProperty (reconcile cr detailed) (ConfigRuleName q)) \<and>
               readNonCompliantResourceCount
                 (getProperty (reconcile cr detailed) (ConfigRuleName q)) = Some 0 \<and>
               positive (readTotalResourceCount
                 (getProperty (reconcile cr detailed) (ConfigRuleName q)))"
      by (simp add: statusFilter_def Let_def split: if_splits)
    then show "\<exists>c. compliance p = Counts c \<and>
                   NonCompliantResourceCount c = 0 \<and> TotalResourceCount c > 0"
      by (cases "getProperty (reconcile cr detailed) (ConfigRuleName q)")
         (simp_all add: p withCompliance_def lookupOrZero_def)
  qed
  show ?thesis using 1 2 3 4 by blast
qed

text \<open>
  A compliant rule under the filter COMPLIANT, a rule without entry and a rule
  with the entry (0, 0, 0) under the filter INSUFFICIENT_DATA.
\<close>

theorem status_filter_matches_classification_witness:
  "COMPLIANT \<noteq> INSUFFICIENT_DATA \<and>
   \<lparr>ConfigRuleName = ''r1'', Description = None, Scope = None\<rparr>
     \<in> set (filterRules
          [(''r1'', \<lparr>CompliantResourceCount = 5, NonCompliantResourceCount = 0,
                     TotalResourceCount = 5\<rparr>)]
          (noParams\<lparr>complianceStatus := Some (statusValue COMPLIANT)\<rparr>)
          [\<lparr>ConfigRuleName = ''r1'', Description = None, Scope = None\<rparr>]) \<and>
   map_of ([] :: ComplianceMap)
     (ConfigRuleName \<lparr>ConfigRuleName = ''r2'', Description = None, Scope = None\<rparr>) = None \<and>
   \<lparr>ConfigRuleName = ''r2'', Description = None, Scope = None\<rparr>
     \<notin> set (filterRules []
          (noParams\<lparr>complianceStatus := Some (statusValue INSUFFICIENT_DATA)\<rparr>)
          [\<lparr>ConfigRuleName = ''r2'', Description = None, Scope = None\<rparr>]) \<and>
   \<lparr>ConfigRuleName = ''r3'', Description = None, Scope = None\<rparr>
     \<in> set (filterRules
          [(''r3'', \<lparr>CompliantResourceCount = 0, NonCompliantResourceCount = 0,
                     TotalResourceCount = 0\<rparr>)]
          (noParams\<lparr>complianceStatus := Some (statusValue INSUFFICIENT_DATA)\<rparr>)
          [\<lparr>ConfigRuleName = ''r3'', Description = None, Scope = None\<rparr>]) \<and>
   withCompliance \<lparr>ConfigRuleName = ''r1'', Description = None, Scope = None\<rparr>
       (Counts \<lparr>CompliantResourceCount = 5, NonCompliantResourceCount = 0,
                TotalResourceCount = 5\<rparr>)
     \<in> set (rules (processConfigData
          \<lparr>ConfigRules = Some [\<lparr>ConfigRuleName = ''r1'', Description = None, Scope = None\<rparr>]\<rparr>
          \<lparr>ComplianceSummaryByConfigRule = Some
             [\<lparr>SummaryRuleName = ''r1'',
               ComplianceSummary = \<lparr>SummaryCompliantResourceCount = Some 5,
                 SummaryNonCompliantResourceCount = None,
                 SummaryTotalResourceCount = Some 5\<rparr>\<rparr>]\<rparr>
          (noParams\<lparr>complianceStatus := Some (statusValue COMPLIANT)\<rparr>) [] None)) \<and>
   (\<exists>c. compliance
          (withCompliance \<lparr>ConfigRuleName = ''r1'', Description = None, Scope = None\<rparr>
            (Counts \<lparr>CompliantResourceCount = 5, NonCompliantResourceCount = 0,
                     TotalResourceCount = 5\<rparr>)) = Counts c \<and>
        NonCompliantResourceCount c = 0 \<and> TotalResourceCount c > 0)"
proof -
  let ?r1 = "\<lparr>ConfigRuleName = ''r1'', Description = None, Scope = None\<rparr>"
  let ?c1 = "\<lparr>CompliantResourceCount = 5, NonCompliantResourceCount = 0,
              TotalResourceCount = 5\<rparr>"
  let ?r2 = "\<lparr>ConfigRuleName = ''r2'', Description = None, Scope = None\<rparr>"
  let ?r3 = "\<lparr>ConfigRuleName = ''r3'', Description = None, Scope = None\<rparr>"
  let ?c3 = "\<lparr>CompliantResourceCount = 0, NonCompliantResourceCount = 0,
              TotalResourceCount = 0\<rparr>"
  let ?rr = "\<lparr>ConfigRules = Some [?r1]\<rparr>"
  let ?cr = "\<lparr>ComplianceSummaryByConfigRule = Some
               [\<lparr>SummaryRuleName = ''r1'',
                 ComplianceSummary = \<lparr>SummaryCompliantResourceCount = Some 5,
                   SummaryNonCompliantResourceCount = None,
                   SummaryTotalResourceCount = Some 5\<rparr>\<rparr>]\<rparr>"
  have k: "COMPLIANT \<noteq> INSUFFICIENT_DATA" by simp
  have a: "?r1 \<in> set (filterRules [(''r1'', ?c1)] (noParams\<lparr>complianceStatus := None\<rparr>) [?r1])"
    by (simp add: filterRules_def noParams_def)
  have b: "displayedStatus [(''r1'', ?c1)] ?r1 = statusLabel COMPLIANT"
    by (simp add: displayedStatus_cases)
  have c: "map_of ([] :: ComplianceMap) (ConfigRuleName ?r2) = None" by simp
  have d: "map_of [(''r3'', ?c3)] (ConfigRuleName ?r3) = Some ?c3 \<and>
           (NonCompliantResourceCount ?c3 = 0 \<or> TotalResourceCount ?c3 > 0)"
    by simp
  have e: "?r3 \<in> set (filterRules [(''r3'', ?c3)] (noParams\<lparr>complianceStatus := None\<rparr>) [?r3])"
    by (simp add: filterRules_def noParams_def)
  have f: "displayedStatus [(''r3'', ?c3)] ?r3 = statusLabel INSUFFICIENT_DATA"
    by (simp add: displayedStatus_cases)
  have g: "withCompliance ?r1 (Counts ?c1)
             \<in> set (rules (processConfigData ?rr ?cr
                  (noParams\<lparr>complianceStatus := Some (statusValue COMPLIANT)\<rparr>) [] None))"
  proof -
    have m: "reconcile ?cr [] = [(''r1'', ?c1)]"
      by (simp add: reconcile_def orEmpty_def buildComplianceMap_def summaryEntry_def
            or0_def mergeDetailed_def)
    have p: "getProperty [(''r1'', ?c1)] ''r1'' = Counts ?c1"
      by (simp add: getProperty_Some)
    show ?thesis
      by (simp add: rules_processConfigData m orEmpty_def filterRules_def statusFilter_def
            lookupOrZero_def p noParams_def)
  qed
  have 1: "?r1 \<in> set (filterRules [(''r1'', ?c1)]
                        (noParams\<lparr>complianceStatus := Some (statusValue COMPLIANT)\<rparr>) [?r1])"
    using status_filter_matches_classification
            [where k = COMPLIANT and r = ?r1 and m = "[(''r1'', ?c1)]" and params = noParams
               and rs = "[?r1]"] k a b
    by blast
  have 2: "?r2 \<notin> set (filterRules []
                        (noParams\<lparr>complianceStatus := Some (statusValue INSUFFICIENT_DATA)\<rparr>)
                        [?r2])"
    using status_filter_matches_classification
            [where r = ?r2 and m = "[]" and params = noParams and rs = "[?r2]"] c
    by blast
  have 3: "?r3 \<in> set (filterRules [(''r3'', ?c3)]
                        (noParams\<lparr>complianceStatus := Some (statusValue INSUFFICIENT_DATA)\<rparr>)
                        [?r3])"
    using status_filter_matches_classification
            [where r = ?r3 and m = "[(''r3'', ?c3)]" and params = noParams and rs = "[?r3]"]
          d e f
    by blast
  have 4: "\<exists>c. compliance (withCompliance ?r1 (Counts ?c1)) = Counts c \<and>
               NonCompliantResourceCount c = 0 \<and> TotalResourceCount c > 0"
    using status_filter_matches_classification
            [where params = noParams and rr = ?rr and cr = ?cr and detailed = "[]"
               and acct = None] g
    by blast
  show ?thesis using k 1 2 3 4 c g by blast
qed

text \<open>
  C6 as stated fails for the value INSUFFICIENT_DATA. With the rules \<^verbatim>\<open>r1\<close> (no
  compliance data) and \<^verbatim>\<open>r2\<close> (summary: 2 non-compliant, total 0), filtering by
  INSUFFICIENT_DATA returns \<^verbatim>\<open>r2\<close> alone, while the widget shows \<^verbatim>\<open>r1\<close> as
  Insufficient Data and \<^verbatim>\<open>r2\<close> as Non-Compliant.
\<close>

theorem status_filter_counterexample:
  "map ruleOf (rules (processConfigData
      \<lparr>ConfigRules = Some [\<lparr>ConfigRuleName = ''r1'', Description = None, Scope = None\<rparr>,
                            \<lparr>ConfigRuleName = ''r2'', Description = None, Scope = None\<rparr>]\<rparr>
      \<lparr>ComplianceSummaryByConfigRule = Some
         [\<lparr>SummaryRuleName = ''r2'',
           ComplianceSummary = \<lparr>SummaryCompliantResourceCount = Some 0,
             SummaryNonCompliantResourceCount = Some 2,
             SummaryTotalResourceCount = Some 0\<rparr>\<rparr>]\<rparr>
      \<lparr>ruleNames = None, resourceTypes = None,
       complianceStatus = Some (statusValue INSUFFICIENT_DATA), ruleName = None\<rparr> [] None))
   = [\<lparr>ConfigRuleName = ''r2'', Description = None, Scope = None\<rparr>] \<and>
   map generateRuleItemHTML (rules (processConfigData
      \<lparr>ConfigRules = Some [\<lparr>ConfigRuleName = ''r1'', Description = None, Scope = None\<rparr>,
                            \<lparr>ConfigRuleName = ''r2'', Description = None, Scope = None\<rparr>]\<rparr>
      \<lparr>ComplianceSummaryByConfigRule = Some
         [\<lparr>SummaryRuleName = ''r2'',
           ComplianceSummary = \<lparr>SummaryCompliantResourceCount = Some 0,
             SummaryNonCompliantResourceCount = Some 2,
             SummaryTotalResourceCount = Some 0\<rparr>\<rparr>]\<rparr>
      \<lparr>ruleNames = None, resourceTypes = None, complianceStatus = None, ruleName = None\<rparr>
      [] None))
   = [(''status-insufficient'', statusLabel INSUFFICIENT_DATA),
      (''status-noncompliant'', statusLabel NON_COMPLIANT)] \<and>
   \<not> (statusFilter
        (reconcile \<lparr>ComplianceSummaryByConfigRule = Some
           [\<lparr>SummaryRuleName = ''r2'',
             ComplianceSummary = \<lparr>SummaryCompliantResourceCount = Some 0,
               SummaryNonCompliantResourceCount = Some 2,
               SummaryTotalResourceCount = Some 0\<rparr>\<rparr>]\<rparr> [])
        (statusValue INSUFFICIENT_DATA)
        \<lparr>ConfigRuleName = ''r1'', Description = None, Scope = None\<rparr> \<longleftrightarrow>
      displayedStatus
        (reconcile \<lparr>ComplianceSummaryByConfigRule = Some
           [\<lparr>SummaryRuleName = ''r2'',
             ComplianceSummary = \<lparr>SummaryCompliantResourceCount = Some 0,
               SummaryNonCompliantResourceCount = Some 2,
               SummaryTotalResourceCount = Some 0\<rparr>\<rparr>]\<rparr> [])
        \<lparr>ConfigRuleName = ''r1'', Description = None, Scope = None\<rparr>
      = statusLabel INSUFFICIENT_DATA)"
proof -
  let ?r1 = "\<lparr>ConfigRuleName = ''r1'', Description = None, Scope = None\<rparr>"
  let ?r2 = "\<lparr>ConfigRuleName = ''r2'', Description = None, Scope = None\<rparr>"
  let ?c2 = "\<lparr>CompliantResourceCount = 0, NonCompliantResourceCount = 2,
              TotalResourceCount = 0\<rparr>"
  let ?rr = "\<lparr>ConfigRules = Some [?r1, ?r2]\<rparr>"
  let ?cr = "\<lparr>ComplianceSummaryByConfigRule = Some
               [\<lparr>SummaryRuleName = ''r2'',
                 ComplianceSummary = \<lparr>SummaryCompliantResourceCount = Some 0,
                   SummaryNonCompliantResourceCount = Some 2,
                   SummaryTotalResourceCount = Some 0\<rparr>\<rparr>]\<rparr>"
  have m: "reconcile ?cr [] = [(''r2'', ?c2)]"
    by (simp add: reconcile_def orEmpty_def buildComplianceMap_def summaryEntry_def
          or0_def mergeDetailed_def)
  have g1: "getProperty [(''r2'', ?c2)] ''r1'' = Undefined"
    by (simp add: getProperty_plain plain_names)
  have g2: "getProperty [(''r2'', ?c2)] ''r2'' = Counts ?c2"
    by (simp add: getProperty_Some)
  have 1: "map ruleOf (rules (processConfigData ?rr ?cr
              \<lparr>ruleNames = None, resourceTypes = None,
               complianceStatus = Some (statusValue INSUFFICIENT_DATA), ruleName = None\<rparr>
              [] None)) = [?r2]"
    by (simp add: map_ruleOf_processConfigData m orEmpty_def filterRules_def
          statusFilter_def g1 g2)
  have 2: "map generateRuleItemHTML (rules (processConfigData ?rr ?cr
              \<lparr>ruleNames = None, resourceTypes = None, complianceStatus = None,
               ruleName = None\<rparr> [] None))
           = [(''status-insufficient'', statusLabel INSUFFICIENT_DATA),
              (''status-noncompliant'', statusLabel NON_COMPLIANT)]"
    by (simp add: rules_processConfigData m orEmpty_def filterRules_def lookupOrZero_def
          g1 g2 zeroCount_def withCompliance_def generateRuleItemHTML_def)
  have 3: "\<not> (statusFilter (reconcile ?cr []) (statusValue INSUFFICIENT_DATA) ?r1 \<longleftrightarrow>
              displayedStatus (reconcile ?cr []) ?r1 = statusLabel INSUFFICIENT_DATA)"
    by (simp add: m statusFilter_def g1 displayedStatus_cases)
  show ?thesis using 1 2 3 by blast
qed

section \<open>Summary statistics\<close>

text \<open>
  C3. In the rules widget the insufficient-data bucket counts every processed rule
  with total 0, whatever its non-compliant count. A rule whose summary has 2
  non-compliant resources and total 0 is counted as non-compliant and as
  insufficient data: the three buckets add up to 2 for 1 processed rule.
\<close>

theorem summary_buckets_overlap:
  "summary (processConfigData
      \<lparr>ConfigRules = Some [\<lparr>ConfigRuleName = ''r2'', Description = None, Scope = None\<rparr>]\<rparr>
      \<lparr>ComplianceSummaryByConfigRule = Some
         [\<lparr>SummaryRuleName = ''r2'',
           ComplianceSummary = \<lparr>SummaryCompliantResourceCount = Some 0,
             SummaryNonCompliantResourceCount = Some 2,
             SummaryTotalResourceCount = Some 0\<rparr>\<rparr>]\<rparr>
      \<lparr>ruleNames = None, resourceTypes = None, complianceStatus = None, ruleName = None\<rparr>
      [] None)
   = \<lparr>total = 1, compliant = 0, nonCompliant = 1, insufficientData = 1\<rparr>"
proof -
  let ?r2 = "\<lparr>ConfigRuleName = ''r2'', Description = None, Scope = None\<rparr>"
  let ?c2 = "\<lparr>CompliantResourceCount = 0, NonCompliantResourceCount = 2,
              TotalResourceCount = 0\<rparr>"
  let ?rr = "\<lparr>ConfigRules = Some [?r2]\<rparr>"
  let ?cr = "\<lparr>ComplianceSummaryByConfigRule = Some
               [\<lparr>SummaryRuleName = ''r2'',
                 ComplianceSummary = \<lparr>SummaryCompliantResourceCount = Some 0,
                   SummaryNonCompliantResourceCount = Some 2,
                   SummaryTotalResourceCount = Some 0\<rparr>\<rparr>]\<rparr>"
  let ?ps = "\<lparr>ruleNames = None, resourceTypes = None, complianceStatus = None,
              ruleName = None\<rparr>"
  have m: "reconcile ?cr [] = [(''r2'', ?c2)]"
    by (simp add: reconcile_def orEmpty_def buildComplianceMap_def summaryEntry_def
          or0_def mergeDetailed_def)
  have g: "getProperty [(''r2'', ?c2)] ''r2'' = Counts ?c2"
    by (simp add: getProperty_Some)
  have r: "rules (processConfigData ?rr ?cr ?ps [] None) = [withCompliance ?r2 (Counts ?c2)]"
    by (simp add: rules_processConfigData m orEmpty_def filterRules_def lookupOrZero_def g)
  show ?thesis
    by (simp add: summary_processConfigData r withCompliance_def)
qed

text \<open>
  The compliance widget computes its third bucket by subtraction, so that its
  three buckets add up to the number of rules.
\<close>

lemma summary_view_buckets_sum:
  "int (compliantRules (generateComplianceSummaryHTML rs cs detailed)) +
   int (nonCompliantRules (generateComplianceSummaryHTML rs cs detailed)) +
   insufficientDataRules (generateComplianceSummaryHTML rs cs detailed) =
   int (totalRules (generateComplianceSummaryHTML rs cs detailed))"
  by (simp add: generateComplianceSummaryHTML_def Let_def)

end
